theory Spec2Isabelle
  imports Main "HOL-Library.Sublist"
begin

section \<open>The MMS handler of commhistory-daemon (src/mmshandler.cpp)\<close>

text \<open>
  A shallow embedding of \<^verbatim>\<open>MmsHandler\<close>. The handler object, the history store it
  talks to, the file system holding the message parts and the calls it makes to the
  notification manager and to the MMS engine are one explicit state record. What the
  outside world decides (the clock, the group manager, phone number normalisation, whether
  a database or file operation succeeds) is read from an environment record, so that every
  failure branch of the source is a branch of the model.
\<close>

subsection \<open>CommHistory::Event and the message parts\<close>

text \<open>
  Modelled from the spec: the message record of libcommhistory (\<^verbatim>\<open>CommHistory::Event\<close>,
  \<^verbatim>\<open>CommHistory::MessagePart\<close>), whose declarations are not part of the source file. The
  fields are the ones the handler reads or writes, under the names of their accessors; the
  statuses are those of the specification's data model, with \<^verbatim>\<open>UnknownStatus\<close> for an
  event that has none yet.
\<close>

datatype event_type =
  UnknownType | IMEvent | SMSEvent | CallEvent | VoicemailEvent | StatusMessageEvent | MMSEvent

datatype event_direction = UnknownDirection | Inbound | Outbound

datatype event_status =
  UnknownStatus | WaitingStatus | ManualNotificationStatus | DownloadingStatus | SendingStatus
  | ReceivedStatus | SentStatus | DeliveredStatus | TemporarilyFailedStatus
  | PermanentlyFailedStatus

datatype event_read_status = ReadStatusUnknown | ReadStatusRead | ReadStatusDeleted

datatype qvariant = VString string | VUInt nat | VByteArray string

text \<open>\<^verbatim>\<open>MmsPart\<close>: a part as the MMS engine hands it over (and takes it back).\<close>

record mms_part =
  fileName :: string
  contentType :: string
  contentId :: string

text \<open>\<^verbatim>\<open>CommHistory::MessagePart\<close>: a part of a stored event.\<close>

record message_part =
  part_contentId :: string
  part_contentType :: string
  part_path :: string

record event =
  id_ev :: int
  type_ev :: event_type
  startTime :: "int option"
  endTime :: "int option"
  direction :: event_direction
  localUid :: string
  remoteUid :: string
  subject :: string
  status :: event_status
  readStatus :: event_read_status
  isRead :: bool
  reportRead :: bool
  mmsId :: string
  toList :: "string list"
  ccList :: "string list"
  bccList :: "string list"
  groupId :: int
  messageParts :: "message_part list"
  freeText :: string
  extraProperties :: "string \<rightharpoonup> qvariant"

text \<open>
  Modelled from the spec: the default-constructed \<^verbatim>\<open>Event\<close>. Nothing is set, and the
  row id is absent (negative) before the first save: it is -1, which is what
  \<^verbatim>\<open>isValid\<close> tests.
\<close>

definition Event :: event where
  "Event = \<lparr> id_ev = - 1, type_ev = UnknownType, startTime = None, endTime = None,
     direction = UnknownDirection, localUid = [], remoteUid = [], subject = [],
     status = UnknownStatus, readStatus = ReadStatusUnknown, isRead = False,
     reportRead = False, mmsId = [], toList = [], ccList = [], bccList = [],
     groupId = - 1, messageParts = [], freeText = [], extraProperties = Map.empty \<rparr>"

text \<open>Modelled from the spec: \<^verbatim>\<open>Event::isValid\<close>, true of an event that has a row id.\<close>

definition isValid :: "event \<Rightarrow> bool" where
  "isValid e = (id_ev e \<noteq> - 1)"

text \<open>
  Modelled from the spec: \<^verbatim>\<open>Event::setExtraProperty\<close>, the opaque extra key-value
  properties of the record; an invalid \<^verbatim>\<open>QVariant()\<close> is \<open>None\<close> and clears the key.
\<close>

definition setExtraProperty :: "string \<Rightarrow> qvariant option \<Rightarrow> event \<Rightarrow> event" where
  "setExtraProperty k v e = e\<lparr>extraProperties := (extraProperties e)(k := v)\<rparr>"

text \<open>
  Modelled from the spec: the numeric order of \<^verbatim>\<open>Event::EventStatus\<close>, declared in
  libcommhistory and not part of the source file. The spec lists the statuses in this
  order and says that the failure statuses are numerically greater than the in-progress
  ones; \<^verbatim>\<open>sendMessage\<close> compares against \<^verbatim>\<open>TemporarilyFailedStatus\<close>.
\<close>

fun status_value :: "event_status \<Rightarrow> nat" where
  "status_value UnknownStatus = 0"
| "status_value WaitingStatus = 1"
| "status_value ManualNotificationStatus = 2"
| "status_value DownloadingStatus = 3"
| "status_value SendingStatus = 4"
| "status_value ReceivedStatus = 5"
| "status_value SentStatus = 6"
| "status_value DeliveredStatus = 7"
| "status_value TemporarilyFailedStatus = 8"
| "status_value PermanentlyFailedStatus = 9"

subsection \<open>The environment and the state\<close>

text \<open>
  What the handler asks of code outside the source file. \<open>resolveGroup\<close> is the group
  manager behind \<^verbatim>\<open>setGroupForEvent\<close>; \<open>QString_toInt\<close> is \<^verbatim>\<open>QString::toInt\<close>;
  \<open>messagePartPath\<close> gives the storage path of a part; \<open>link_permitted\<close> and
  \<open>copy_permitted\<close> say whether the operating system lets \<^verbatim>\<open>link(2)\<close> and
  \<^verbatim>\<open>QFile::copy\<close> go through (permissions, space, devices). The last four fields are the
  outcomes of the database calls of one handler invocation. The index of \<open>query_ok\<close> and
  of \<open>modify_ok\<close> names the place of the call in the handler, not its turn: \<open>query_ok 0\<close>
  is the read at the handler's start (in \<^verbatim>\<open>sendMessage\<close>, which has none, its only read)
  and \<open>query_ok 1\<close> the read after a failure in \<^verbatim>\<open>messageReceived\<close>; \<open>modify_ok 0\<close> is
  the handler's first \<^verbatim>\<open>modifyEvent\<close> in the source (the commit of the parts in
  \<^verbatim>\<open>messageReceived\<close> and \<^verbatim>\<open>sendMessage\<close>) and \<open>modify_ok 1\<close> the write of a failure
  status that may follow it there. No two calls of one invocation read the same index.
\<close>

record env =
  now :: int
  RING_ACCOUNT_PATH :: string
  toBase64 :: "string \<Rightarrow> string"
  QString_toInt :: "string \<Rightarrow> int"
  resolveGroup :: "event \<Rightarrow> int option"
  normalizePhoneNumber :: "string \<Rightarrow> string"
  messagePartPath :: "int \<Rightarrow> string \<Rightarrow> string"
  link_permitted :: "string \<Rightarrow> string \<Rightarrow> bool"
  copy_permitted :: "string \<Rightarrow> string \<Rightarrow> bool"
  query_ok :: "nat \<Rightarrow> bool"
  add_ok :: bool
  modify_ok :: "nat \<Rightarrow> bool"
  move_ok :: bool

datatype db_call = AddEvent event | ModifyEvent event | MoveEvent event int

datatype engine_call =
  EngineCancel int
  | EngineSendMessage int string "string list" "string list" "string list" string nat
      "mms_part list"

text \<open>
  The handler's members (\<open>m_activeEvents\<close>, the two configuration items, the context
  properties it watches) and the world around it: the rows of the history store with the
  next free row id, the configuration database as \<^verbatim>\<open>value().toBool()\<close> and
  \<^verbatim>\<open>value().toInt()\<close> read it, the files by path, and the logs of the calls made to the
  store (writes only), to the notification manager and to the MMS engine.
\<close>

record mms_handler =
  m_activeEvents :: "int list"
  m_sendMessageFlags :: "string option"
  m_automaticDownload :: "string option"
  cellularStatus :: string
  roamingAllowed :: bool
  askRoaming :: bool
  subscriberIdentity :: string
  conf_toBool :: "string \<Rightarrow> bool"
  conf_toInt :: "string \<Rightarrow> int"
  events :: "event list"
  nextId :: int
  files :: "string \<rightharpoonup> string"
  dbCalls :: "db_call list"
  notifications :: "(event \<times> string) list"
  engineCalls :: "engine_call list"

subsection \<open>The history store\<close>

text \<open>
  The store is \<^verbatim>\<open>EventModel\<close> and \<^verbatim>\<open>SingleEventModel\<close> of libcommhistory, not part of
  the source file: fetch-by-id, fetch-by-correlation-token, create, update and
  move-between-groups, each returning success or failure. Whether a call succeeds is the
  environment's to say (the flag \<open>ok\<close>); every write is logged in \<open>dbCalls\<close>, successful
  or not.
\<close>

text \<open>
  Modelled from the spec: fetch-by-id. A read that succeeds leaves the row it found, or a
  default \<^verbatim>\<open>Event()\<close> when there is none, at index 0 of the model; the result is the
  success flag and \<^verbatim>\<open>model.event(model.index(0, 0))\<close>.
\<close>

definition getEventById :: "bool \<Rightarrow> int \<Rightarrow> mms_handler \<Rightarrow> bool \<times> event" where
  "getEventById ok k s =
     (if ok then (True, case find (\<lambda>r. id_ev r = k) (events s) of Some r \<Rightarrow> r | None \<Rightarrow> Event)
      else (False, Event))"

text \<open>
  Modelled from the spec: fetch-by-correlation-token, \<^verbatim>\<open>getEventByTokens\<close> called with
  an empty message token and no group; the row found is the first one carrying the
  \<^verbatim>\<open>mms-id\<close>.
\<close>

definition getEventByTokens :: "bool \<Rightarrow> string \<Rightarrow> mms_handler \<Rightarrow> bool \<times> event" where
  "getEventByTokens ok m s =
     (if ok then (True, case find (\<lambda>r. mmsId r = m) (events s) of Some r \<Rightarrow> r | None \<Rightarrow> Event)
      else (False, Event))"

text \<open>
  Modelled from the spec: create. The store assigns the next free row id and writes it
  into the event; on failure the event keeps the id it had.
\<close>

definition addEvent :: "bool \<Rightarrow> event \<Rightarrow> mms_handler \<Rightarrow> bool \<times> event \<times> mms_handler" where
  "addEvent ok e s =
     (let s1 = s\<lparr>dbCalls := dbCalls s @ [AddEvent e]\<rparr> in
      if ok then
        (let e1 = e\<lparr>id_ev := nextId s\<rparr> in
         (True, e1, s1\<lparr>events := events s @ [e1], nextId := nextId s + 1\<rparr>))
      else (False, e, s1))"

text \<open>
  Modelled from the spec: update. The row with the event's id is replaced by the event;
  an event without id, or one that has no row, is not written.
\<close>

definition modifyEvent :: "bool \<Rightarrow> event \<Rightarrow> mms_handler \<Rightarrow> bool \<times> mms_handler" where
  "modifyEvent ok e s =
     (let s1 = s\<lparr>dbCalls := dbCalls s @ [ModifyEvent e]\<rparr> in
      if ok \<and> isValid e \<and> id_ev e \<in> id_ev ` set (events s) then
        (True, s1\<lparr>events := map (\<lambda>r. if id_ev r = id_ev e then e else r) (events s)\<rparr>)
      else (False, s1))"

text \<open>
  Modelled from the spec: move-between-groups. The row with the event's id gets the new
  group id.
\<close>

definition moveEvent :: "bool \<Rightarrow> event \<Rightarrow> int \<Rightarrow> mms_handler \<Rightarrow> bool \<times> mms_handler" where
  "moveEvent ok e newGroup s =
     (let s1 = s\<lparr>dbCalls := dbCalls s @ [MoveEvent e newGroup]\<rparr> in
      if ok \<and> isValid e \<and> id_ev e \<in> id_ev ` set (events s) then
        (True, s1\<lparr>events :=
           map (\<lambda>r. if id_ev r = id_ev e then r\<lparr>groupId := newGroup\<rparr> else r) (events s)\<rparr>)
      else (False, s1))"

text \<open>
  Modelled from the spec: \<^verbatim>\<open>MessageHandlerBase::setGroupForEvent\<close> (not part of the source
  file), a black box that returns success or failure and a group identifier; on failure
  the event keeps its group.
\<close>

definition setGroupForEvent :: "env \<Rightarrow> event \<Rightarrow> bool \<times> event" where
  "setGroupForEvent env e =
     (case resolveGroup env e of None \<Rightarrow> (False, e) | Some g \<Rightarrow> (True, e\<lparr>groupId := g\<rparr>))"

text \<open>
  Modelled from the spec: \<^verbatim>\<open>NotificationManager::showNotification\<close> (not part of the
  source file), the call \<^verbatim>\<open>present(record, displayIdentity, conversationKind)\<close> to the
  notification service. The conversation kind is \<^verbatim>\<open>Group::ChatTypeP2P\<close> at every call;
  the model keeps the record and the identity of each call, in order.
\<close>

definition showNotification :: "event \<Rightarrow> string \<Rightarrow> mms_handler \<Rightarrow> mms_handler" where
  "showNotification e uid s = s\<lparr>notifications := notifications s @ [(e, uid)]\<rparr>"

subsection \<open>Qt strings\<close>

definition digit_char :: "nat \<Rightarrow> char" where
  "digit_char d = char_of (48 + d)"

function digits10 :: "nat \<Rightarrow> string" where
  "digits10 n = (if n < 10 then [digit_char n] else digits10 (n div 10) @ [digit_char (n mod 10)])"
  by pat_completeness auto
termination
  by (relation "measure (\<lambda>n. n)") auto

declare digits10.simps [simp del]

text \<open>\<^verbatim>\<open>QString::number(int)\<close>: the decimal digits, with a minus sign below zero.\<close>

definition QString_number :: "int \<Rightarrow> string" where
  "QString_number i = (if i < 0 then CHR ''-'' # digits10 (nat (- i)) else digits10 (nat i))"

text \<open>\<^verbatim>\<open>QChar::isSpace\<close> on the ASCII range, and \<^verbatim>\<open>QString::trimmed\<close>.\<close>

definition isSpace :: "char \<Rightarrow> bool" where
  "isSpace c = (c \<in> set [CHR 0x09, CHR 0x0A, CHR 0x0B, CHR 0x0C, CHR 0x0D, CHR '' ''])"

definition trimmed :: "string \<Rightarrow> string" where
  "trimmed t = rev (dropWhile isSpace (rev (dropWhile isSpace t)))"

subsection \<open>Policy: roaming and the subscriber identity\<close>

definition isDataProhibited :: "mms_handler \<Rightarrow> bool" where
  "isDataProhibited s =
     (if cellularStatus s \<noteq> ''roaming'' then False
      else if \<not> roamingAllowed s then True
      else if askRoaming s then True
      else False)"

definition onSubscriberIdentityChanged :: "mms_handler \<Rightarrow> mms_handler" where
  "onSubscriberIdentityChanged s =
     (let imsi = subscriberIdentity s in
      if imsi = [] then s\<lparr>m_sendMessageFlags := None, m_automaticDownload := None\<rparr>
      else
        (let dir = ''/imsi/'' @ imsi @ ''/mms/'' in
         s\<lparr>m_sendMessageFlags := Some (dir @ ''send-flags''),
           m_automaticDownload := Some (dir @ ''automatic-download'')\<rparr>))"





definition subscriberIdentityChanged :: "string \<Rightarrow> mms_handler \<Rightarrow> mms_handler" where
  "subscriberIdentityChanged v s = onSubscriberIdentityChanged (s\<lparr>subscriberIdentity := v\<rparr>)"

subsection \<open>messageNotification\<close>

definition messageNotification ::
  "env \<Rightarrow> string \<Rightarrow> string \<Rightarrow> string \<Rightarrow> nat \<Rightarrow> string \<Rightarrow> mms_handler \<Rightarrow> mms_handler \<times> string"
where
  "messageNotification env imsi from subj expiry data s =
     (let event0 = Event\<lparr>type_ev := MMSEvent, startTime := Some (now env),
            endTime := Some (now env), direction := Inbound,
            localUid := RING_ACCOUNT_PATH env, remoteUid := from, subject := subj\<rparr>;
          event1 = setExtraProperty ''mms-push-data'' (Some (VByteArray (toBase64 env data)))
            (setExtraProperty ''mms-expiry'' (Some (VUInt expiry))
              (setExtraProperty ''mms-notification-imsi'' (Some (VString imsi)) event0));
          manualDownload =
            (if isDataProhibited s then True
             else (case m_automaticDownload s of
                     Some k \<Rightarrow> \<not> conf_toBool s k
                   | None \<Rightarrow> False));
          event2 = event1\<lparr>status :=
            (if manualDownload then ManualNotificationStatus else WaitingStatus)\<rparr>
      in case setGroupForEvent env event2 of
           (False, _) \<Rightarrow> (s, [])
         | (True, event3) \<Rightarrow>
             (case addEvent (add_ok env) event3 s of
                (False, _, s1) \<Rightarrow> (s1, [])
              | (True, event4, s1) \<Rightarrow>
                  (let s2 = (if \<not> manualDownload
                             then s1\<lparr>m_activeEvents := m_activeEvents s1 @ [id_ev event4]\<rparr>
                             else showNotification event4 from s1)
                   in (s2, if manualDownload then [] else QString_number (id_ev event4)))))"

subsection \<open>messageReceiveStateChanged\<close>

text \<open>\<^verbatim>\<open>enum MessageReceiveState\<close>, as the engine sends it: a plain \<^verbatim>\<open>int\<close>.\<close>

abbreviation (input) Receiving :: int where "Receiving \<equiv> 0"
abbreviation (input) Deferred :: int where "Deferred \<equiv> 1"
abbreviation (input) NoSpace :: int where "NoSpace \<equiv> 2"
abbreviation (input) Decoding :: int where "Decoding \<equiv> 3"
abbreviation (input) RecvError :: int where "RecvError \<equiv> 4"
abbreviation (input) Garbage :: int where "Garbage \<equiv> 5"

text \<open>
  The \<^verbatim>\<open>switch\<close> of \<^verbatim>\<open>messageReceiveStateChanged\<close>; \<open>None\<close> is its \<^verbatim>\<open>return\<close> for a
  cancelled receive, and a state outside the enumeration leaves the status as it is.
\<close>

definition receiveStateSwitch :: "int \<Rightarrow> event \<Rightarrow> event_status option" where
  "receiveStateSwitch state event =
     (if state = Deferred then Some WaitingStatus
      else if state = Receiving \<or> state = Decoding then Some DownloadingStatus
      else if state = NoSpace \<or> state = RecvError then
        (if status event = ManualNotificationStatus then None
         else Some TemporarilyFailedStatus)
      else if state = Garbage then Some PermanentlyFailedStatus
      else Some (status event))"

definition messageReceiveStateChanged :: "env \<Rightarrow> string \<Rightarrow> int \<Rightarrow> mms_handler \<Rightarrow> mms_handler"
where
  "messageReceiveStateChanged env recId state s =
     (let event = snd (getEventById (query_ok env 0) (QString_toInt env recId) s) in
      if \<not> isValid event then
        s\<lparr>m_activeEvents := remove1 (QString_toInt env recId) (m_activeEvents s)\<rparr>
      else
        (case receiveStateSwitch state event of
           None \<Rightarrow> s
         | Some newStatus \<Rightarrow>
             if newStatus \<noteq> status event then
               (let event1 = event\<lparr>status := newStatus\<rparr>;
                    s1 = snd (modifyEvent (modify_ok env 0) event1 s)
                in if newStatus \<noteq> WaitingStatus \<and> newStatus \<noteq> DownloadingStatus then
                     showNotification event1 (remoteUid event1)
                       (s1\<lparr>m_activeEvents := remove1 (id_ev event1) (m_activeEvents s1)\<rparr>)
                   else s1)
             else s))"

subsection \<open>Copying the message parts\<close>

text \<open>
  \<^verbatim>\<open>link(2)\<close> and \<^verbatim>\<open>QFile::copy\<close> on the file map: both need the source to exist and
  neither overwrites an existing target; both fail on an empty target name.
  \<^verbatim>\<open>QFile::remove\<close> deletes the path; the source never looks at its result, and the
  model lets it succeed.
\<close>

definition link_file :: "env \<Rightarrow> string \<Rightarrow> string \<Rightarrow> (string \<rightharpoonup> string) \<Rightarrow> (string \<rightharpoonup> string) option"
where
  "link_file env src dst fs =
     (case fs src of
        None \<Rightarrow> None
      | Some c \<Rightarrow>
          if dst \<noteq> [] \<and> fs dst = None \<and> link_permitted env src dst then Some (fs(dst \<mapsto> c))
          else None)"

definition QFile_copy :: "env \<Rightarrow> string \<Rightarrow> string \<Rightarrow> (string \<rightharpoonup> string) \<Rightarrow> (string \<rightharpoonup> string) option"
where
  "QFile_copy env src dst fs =
     (case fs src of
        None \<Rightarrow> None
      | Some c \<Rightarrow>
          if dst \<noteq> [] \<and> fs dst = None \<and> copy_permitted env src dst then Some (fs(dst \<mapsto> c))
          else None)"

definition QFile_remove :: "string \<Rightarrow> (string \<rightharpoonup> string) \<Rightarrow> (string \<rightharpoonup> string)" where
  "QFile_remove p fs = fs(p := None)"

definition copyMessagePartFile ::
  "env \<Rightarrow> string \<Rightarrow> int \<Rightarrow> string \<Rightarrow> (string \<rightharpoonup> string) \<Rightarrow> string \<times> (string \<rightharpoonup> string)"
where
  "copyMessagePartFile env sourcePath eventId cid fs =
     (let filePath = messagePartPath env eventId cid in
      case link_file env sourcePath filePath fs of
        Some fs1 \<Rightarrow> (filePath, fs1)
      | None \<Rightarrow>
          (case QFile_copy env sourcePath filePath fs of
             Some fs1 \<Rightarrow> (filePath, fs1)
           | None \<Rightarrow> ([], fs)))"

text \<open>
  Modelled from the spec: \<^verbatim>\<open>MessagePart::plainTextContent\<close> (libcommhistory, not part of
  the source file) gives the text stored at the part's path.
\<close>

definition plainTextContent :: "message_part \<Rightarrow> (string \<rightharpoonup> string) \<Rightarrow> string" where
  "plainTextContent p fs = (case fs (part_path p) of Some c \<Rightarrow> c | None \<Rightarrow> [])"

text \<open>One step of the text accumulation inside the loop of \<^verbatim>\<open>copyMmsPartFiles\<close>.\<close>

definition appendText :: "string \<Rightarrow> message_part \<Rightarrow> (string \<rightharpoonup> string) \<Rightarrow> string" where
  "appendText freeText0 msgPart fs =
     (if prefix ''text/plain'' (part_contentType msgPart) then
        (let text = trimmed (plainTextContent msgPart fs) in
         if text \<noteq> [] then
           (if freeText0 \<noteq> [] then freeText0 @ [CHR 0x0A] else freeText0) @ text
         else freeText0)
      else freeText0)"

text \<open>
  \<^verbatim>\<open>copyMmsPartFiles\<close>: \<open>eventParts\<close> and \<open>freeText\<close> are its in-out parameters; the file
  map is threaded through. The loop stops at the first part that cannot be copied.
\<close>

fun copyMmsPartFiles ::
  "env \<Rightarrow> mms_part list \<Rightarrow> int \<Rightarrow> message_part list \<Rightarrow> string \<Rightarrow> (string \<rightharpoonup> string)
   \<Rightarrow> bool \<times> message_part list \<times> string \<times> (string \<rightharpoonup> string)"
where
  "copyMmsPartFiles env [] eventId eventParts freeText0 fs = (True, eventParts, freeText0, fs)"
| "copyMmsPartFiles env (part # rest) eventId eventParts freeText0 fs =
     (case copyMessagePartFile env (fileName part) eventId (contentId part) fs of
        (path, fs1) \<Rightarrow>
          if path = [] then (False, eventParts, freeText0, fs1)
          else
            (let msgPart = \<lparr>part_contentId = contentId part,
                   part_contentType = contentType part, part_path = path\<rparr>
             in copyMmsPartFiles env rest eventId (eventParts @ [msgPart])
                  (appendText freeText0 msgPart fs1) fs1))"

text \<open>The clean-up loop of both callers: \<^verbatim>\<open>QFile::remove\<close> on every copied part.\<close>

fun removePartFiles :: "message_part list \<Rightarrow> (string \<rightharpoonup> string) \<Rightarrow> (string \<rightharpoonup> string)" where
  "removePartFiles [] fs = fs"
| "removePartFiles (p # ps) fs = removePartFiles ps (QFile_remove (part_path p) fs)"

subsection \<open>messageReceived\<close>

text \<open>
  The second half of \<^verbatim>\<open>messageReceived\<close>, from the copy of the parts on (the event has
  its row id by now): copy, commit, and on failure of either remove the copied files,
  read the event again and mark it \<^verbatim>\<open>TemporarilyFailedStatus\<close>.
\<close>

definition messageReceived_parts ::
  "env \<Rightarrow> string \<Rightarrow> mms_part list \<Rightarrow> event \<Rightarrow> mms_handler \<Rightarrow> mms_handler"
where
  "messageReceived_parts env from parts event s =
     (case copyMmsPartFiles env parts (id_ev event) [] [] (files s) of
        (copied, eventParts, freeText1, fs1) \<Rightarrow>
          (let s1 = s\<lparr>files := fs1\<rparr>;
               event1 = (if copied
                         then event\<lparr>messageParts := eventParts, freeText := freeText1\<rparr>
                         else event);
               (ok, s2) = (if copied then modifyEvent (modify_ok env 0) event1 s1
                           else (False, s1))
           in if \<not> ok then
                (let s3 = s2\<lparr>files := removePartFiles eventParts (files s2)\<rparr>;
                     (found, event2) = getEventById (query_ok env 1) (id_ev event1) s3
                 in if found \<and> isValid event2 then
                      (let event3 = event2\<lparr>status := TemporarilyFailedStatus\<rparr>;
                           s4 = snd (modifyEvent (modify_ok env 1) event3 s3)
                       in showNotification event3 from s4)
                    else s3)
              else showNotification event1 from s2))"

text \<open>The block of \<^verbatim>\<open>messageReceived\<close> that changes the remote party and the group.\<close>

definition messageReceived_regroup ::
  "env \<Rightarrow> string \<Rightarrow> event \<Rightarrow> mms_handler \<Rightarrow> event \<times> mms_handler"
where
  "messageReceived_regroup env from event s =
     (if remoteUid event \<noteq> from then
        (let oldGroup = groupId event;
             event1 = snd (setGroupForEvent env (event\<lparr>remoteUid := from\<rparr>))
         in if oldGroup \<noteq> groupId event1 then
              (let newGroup = groupId event1;
                   s1 = snd (moveEvent (move_ok env) (event1\<lparr>groupId := oldGroup\<rparr>) newGroup s)
               in (event1\<lparr>groupId := newGroup\<rparr>, s1))
            else (event1, s))
      else (event, s))"

definition messageReceived ::
  "env \<Rightarrow> string \<Rightarrow> string \<Rightarrow> string \<Rightarrow> string list \<Rightarrow> string list \<Rightarrow> string \<Rightarrow> nat \<Rightarrow> int
   \<Rightarrow> string \<Rightarrow> bool \<Rightarrow> mms_part list \<Rightarrow> mms_handler \<Rightarrow> mms_handler"
where
  "messageReceived env recId mmsId0 from to cc subj date priority cls readReport0 parts s =
     (let event = snd (getEventById (query_ok env 0) (QString_toInt env recId) s);
          s1 = s\<lparr>m_activeEvents := remove1 (QString_toInt env recId) (m_activeEvents s)\<rparr>;
          (grouped, event1) =
            (if \<not> isValid event then
               setGroupForEvent env
                 (event\<lparr>type_ev := MMSEvent, endTime := Some (now env), direction := Inbound,
                    localUid := RING_ACCOUNT_PATH env, remoteUid := from\<rparr>)
             else (True, event))
      in if \<not> grouped then s1
         else
           (let event2 = event1\<lparr>subject := subj, startTime := Some (int date),
                  mmsId := mmsId0, toList := to, ccList := cc, reportRead := readReport0,
                  status := ReceivedStatus\<rparr>;
                event3 = setExtraProperty ''mms-push-data'' None
                  (setExtraProperty ''mms-expiry'' None
                    (setExtraProperty ''mms-notification-imsi'' None event2));
                (event4, s2) = messageReceived_regroup env from event3 s1
            in if id_ev event4 < 0 then
                 (case addEvent (add_ok env) event4 s2 of
                    (False, _, s3) \<Rightarrow> s3
                  | (True, event5, s3) \<Rightarrow> messageReceived_parts env from parts event5 s3)
               else messageReceived_parts env from parts event4 s2))"

subsection \<open>messageSendStateChanged and messageSent\<close>

abbreviation (input) Send_Encoding :: int where "Send_Encoding \<equiv> 0"
abbreviation (input) Send_TooBig :: int where "Send_TooBig \<equiv> 1"
abbreviation (input) Send_Sending :: int where "Send_Sending \<equiv> 2"
abbreviation (input) Send_Deferred :: int where "Send_Deferred \<equiv> 3"
abbreviation (input) Send_NoSpace :: int where "Send_NoSpace \<equiv> 4"
abbreviation (input) Send_SendError :: int where "Send_SendError \<equiv> 5"
abbreviation (input) Send_Refused :: int where "Send_Refused \<equiv> 6"

definition sendStateSwitch :: "int \<Rightarrow> event \<Rightarrow> event_status" where
  "sendStateSwitch state event =
     (if state = Send_Encoding \<or> state = Send_Sending \<or> state = Send_Deferred
      then SendingStatus
      else if state = Send_TooBig \<or> state = Send_NoSpace \<or> state = Send_SendError
      then TemporarilyFailedStatus
      else if state = Send_Refused then PermanentlyFailedStatus
      else status event)"

definition messageSendStateChanged :: "env \<Rightarrow> string \<Rightarrow> int \<Rightarrow> mms_handler \<Rightarrow> mms_handler"
where
  "messageSendStateChanged env recId state s =
     (let event = snd (getEventById (query_ok env 0) (QString_toInt env recId) s) in
      if \<not> isValid event then
        s\<lparr>m_activeEvents := remove1 (QString_toInt env recId) (m_activeEvents s)\<rparr>
      else
        (let newStatus = sendStateSwitch state event in
         if newStatus \<noteq> status event then
           (let event1 = event\<lparr>status := newStatus\<rparr>;
                s1 = snd (modifyEvent (modify_ok env 0) event1 s)
            in if newStatus \<noteq> SendingStatus then
                 showNotification event1 (remoteUid event1)
                   (s1\<lparr>m_activeEvents := remove1 (id_ev event1) (m_activeEvents s1)\<rparr>)
               else s1)
         else s))"

definition messageSent :: "env \<Rightarrow> string \<Rightarrow> string \<Rightarrow> mms_handler \<Rightarrow> mms_handler" where
  "messageSent env recId mmsId0 s =
     (let event = snd (getEventById (query_ok env 0) (QString_toInt env recId) s);
          s1 = s\<lparr>m_activeEvents := remove1 (QString_toInt env recId) (m_activeEvents s)\<rparr>
      in if \<not> isValid event then s1
         else snd (modifyEvent (modify_ok env 0)
                (event\<lparr>status := SentStatus, mmsId := mmsId0\<rparr>) s1))"

subsection \<open>deliveryReport and readReport\<close>

abbreviation (input) Delivery_Indeterminate :: int where "Delivery_Indeterminate \<equiv> 0"
abbreviation (input) Delivery_Expired :: int where "Delivery_Expired \<equiv> 1"
abbreviation (input) Delivery_Retrieved :: int where "Delivery_Retrieved \<equiv> 2"
abbreviation (input) Delivery_Rejected :: int where "Delivery_Rejected \<equiv> 3"
abbreviation (input) Delivery_Deferred :: int where "Delivery_Deferred \<equiv> 4"
abbreviation (input) Delivery_Unrecognized :: int where "Delivery_Unrecognized \<equiv> 5"
abbreviation (input) Delivery_Forwarded :: int where "Delivery_Forwarded \<equiv> 6"

definition deliveryStatusSwitch :: "int \<Rightarrow> event \<Rightarrow> event" where
  "deliveryStatusSwitch st event =
     (if st = Delivery_Expired \<or> st = Delivery_Rejected \<or> st = Delivery_Unrecognized
      then event\<lparr>status := TemporarilyFailedStatus\<rparr>
      else if st = Delivery_Retrieved then event\<lparr>status := DeliveredStatus\<rparr>
      else event)"

definition deliveryReport ::
  "env \<Rightarrow> string \<Rightarrow> string \<Rightarrow> string \<Rightarrow> int \<Rightarrow> mms_handler \<Rightarrow> mms_handler"
where
  "deliveryReport env imsi mmsId0 recipient st s =
     (let event = snd (getEventByTokens (query_ok env 0) mmsId0 s) in
      if \<not> isValid event then s
      else snd (modifyEvent (modify_ok env 0) (deliveryStatusSwitch st event) s))"

definition readReport ::
  "env \<Rightarrow> string \<Rightarrow> string \<Rightarrow> string \<Rightarrow> int \<Rightarrow> mms_handler \<Rightarrow> mms_handler"
where
  "readReport env imsi mmsId0 recipient st s =
     (let event = snd (getEventByTokens (query_ok env 0) mmsId0 s) in
      if \<not> isValid event then s
      else
        (let event1 = (if st = 0 then event\<lparr>readStatus := ReadStatusRead\<rparr>
                       else event\<lparr>readStatus := ReadStatusDeleted\<rparr>)
         in snd (modifyEvent (modify_ok env 0) event1 s)))"

subsection \<open>Sending\<close>

fun normalizeNumberList :: "env \<Rightarrow> string list \<Rightarrow> string list" where
  "normalizeNumberList env [] = []"
| "normalizeNumberList env (n # ns) = normalizePhoneNumber env n # normalizeNumberList env ns"

text \<open>The loop of \<^verbatim>\<open>sendMessageFromEvent(Event&)\<close> that turns the stored parts back.\<close>

fun partsOfEvent :: "message_part list \<Rightarrow> mms_part list" where
  "partsOfEvent [] = []"
| "partsOfEvent (p # ps) =
     \<lparr>fileName = part_path p, contentType = part_contentType p, contentId = part_contentId p\<rparr>
       # partsOfEvent ps"

text \<open>
  \<^verbatim>\<open>sendMessageFromEvent(Event &event)\<close>: the row id enters \<open>m_activeEvents\<close> and the
  asynchronous \<^verbatim>\<open>sendMessage\<close> call goes to the engine; its reply comes back later
  through \<^verbatim>\<open>sendMessageFinished\<close>. The flags are an \<^verbatim>\<open>unsigned int\<close>.
\<close>

definition sendMessageFromEvent :: "event \<Rightarrow> mms_handler \<Rightarrow> mms_handler" where
  "sendMessageFromEvent event s =
     (let parts = partsOfEvent (messageParts event);
          flags = (case m_sendMessageFlags s of
                     Some k \<Rightarrow> nat (conf_toInt s k mod 2 ^ 32)
                   | None \<Rightarrow> 0)
      in s\<lparr>m_activeEvents := m_activeEvents s @ [id_ev event],
           engineCalls := engineCalls s @
             [EngineSendMessage (id_ev event) [] (toList event) (ccList event) (bccList event)
                (subject event) flags parts]\<rparr>)"

text \<open>\<^verbatim>\<open>sendMessageFromEvent(int eventId)\<close>, the retry by row id.\<close>

definition sendMessageFromEventId :: "env \<Rightarrow> int \<Rightarrow> mms_handler \<Rightarrow> mms_handler" where
  "sendMessageFromEventId env eventId s =
     (let event = snd (getEventById (query_ok env 0) eventId s) in
      if \<not> isValid event \<or> type_ev event \<noteq> MMSEvent \<or> direction event \<noteq> Outbound then s
      else if length (toList event) + length (ccList event) + length (bccList event) < 1 then s
      else if length (messageParts event) < 1 then s
      else if status event \<noteq> SendingStatus then
        (let event1 = event\<lparr>status := SendingStatus\<rparr>;
             s1 = snd (modifyEvent (modify_ok env 0) event1 s)
         in sendMessageFromEvent event1 s1)
      else sendMessageFromEvent event s)"

text \<open>
  The second half of \<^verbatim>\<open>sendMessage\<close>, once the event has its row id: copy the parts and
  commit; on failure remove the copied files, read the event again and mark it
  \<^verbatim>\<open>PermanentlyFailedStatus\<close>; otherwise refuse under roaming restrictions or hand the
  event to the engine. The result is \<^verbatim>\<open>event.id()\<close> of whatever the event variable holds
  at the end.
\<close>

definition sendMessage_parts :: "env \<Rightarrow> mms_part list \<Rightarrow> event \<Rightarrow> mms_handler \<Rightarrow> mms_handler \<times> int"
where
  "sendMessage_parts env parts event s =
     (case copyMmsPartFiles env parts (id_ev event) [] [] (files s) of
        (copied, eventParts, freeText1, fs1) \<Rightarrow>
          (let s1 = s\<lparr>files := fs1\<rparr>;
               event1 = (if copied
                         then event\<lparr>messageParts := eventParts, freeText := freeText1\<rparr>
                         else event);
               (ok, s2) = (if copied then modifyEvent (modify_ok env 0) event1 s1
                           else (False, s1));
               (event4, s5) =
                 (if \<not> ok then
                    (let s3 = s2\<lparr>files := removePartFiles eventParts (files s2)\<rparr> in
                     if id_ev event1 \<ge> 0
                        \<and> fst (getEventById (query_ok env 0) (id_ev event1) s3) then
                       (let event2 = snd (getEventById (query_ok env 0) (id_ev event1) s3) in
                        if isValid event2 then
                          (let event3 = event2\<lparr>status := PermanentlyFailedStatus\<rparr>
                           in (event3, snd (modifyEvent (modify_ok env 1) event3 s3)))
                        else (event2, s3))
                     else (event1, s3))
                  else if isDataProhibited s2 then
                    (let event2 = event1\<lparr>status := TemporarilyFailedStatus\<rparr>
                     in (event2, snd (modifyEvent (modify_ok env 1) event2 s2)))
                  else (event1, sendMessageFromEvent event1 s2));
               s6 = (if status_value (status event4) \<ge> status_value TemporarilyFailedStatus
                     then showNotification event4 (remoteUid event4) s5
                     else s5)
           in (s6, id_ev event4)))"

text \<open>
  \<^verbatim>\<open>sendMessage\<close>. The source reads \<^verbatim>\<open>to[0]\<close> before it looks at any list size: on an
  empty \<open>to\<close> that is an index out of range, which is the result \<open>None\<close> here.
\<close>

definition sendMessage ::
  "env \<Rightarrow> string list \<Rightarrow> string list \<Rightarrow> string list \<Rightarrow> string \<Rightarrow> mms_part list \<Rightarrow> mms_handler
   \<Rightarrow> (mms_handler \<times> int) option"
where
  "sendMessage env to cc bcc subj parts s =
     (let event0 = Event\<lparr>type_ev := MMSEvent, startTime := Some (now env),
            endTime := Some (now env), direction := Outbound,
            localUid := RING_ACCOUNT_PATH env, subject := subj, status := SendingStatus,
            isRead := True\<rparr>
      in case to of
           [] \<Rightarrow> None
         | to0 # _ \<Rightarrow>
             (let event1 = event0\<lparr>remoteUid := normalizePhoneNumber env to0,
                    toList := normalizeNumberList env to,
                    ccList := normalizeNumberList env cc,
                    bccList := normalizeNumberList env bcc\<rparr>
              in if length to + length cc + length bcc > 1 then Some (s, - 1)
                 else
                   (case setGroupForEvent env event1 of
                      (False, _) \<Rightarrow> Some (s, - 1)
                    | (True, event2) \<Rightarrow>
                        (case addEvent (add_ok env) event2 s of
                           (False, _, s1) \<Rightarrow> Some (s1, - 1)
                         | (True, event3, s1) \<Rightarrow>
                             Some (sendMessage_parts env parts event3 s1)))))"

text \<open>
  \<^verbatim>\<open>sendMessageFinished\<close>: \<open>prop\<close> is the watcher's \<^verbatim>\<open>mms-event-id\<close> property (\<open>None\<close>
  when it does not convert to an int), \<open>reply\<close> the engine's answer (\<open>None\<close> for a D-Bus
  error, otherwise the string it returned).
\<close>

definition sendMessageFinished :: "env \<Rightarrow> int option \<Rightarrow> string option \<Rightarrow> mms_handler \<Rightarrow> mms_handler"
where
  "sendMessageFinished env prop reply s =
     (let event = (case prop of
                     Some eventId \<Rightarrow> snd (getEventById (query_ok env 0) eventId s)
                   | None \<Rightarrow> Event)
      in case reply of
           None \<Rightarrow>
             (let event1 = event\<lparr>status := TemporarilyFailedStatus\<rparr>;
                  s1 = showNotification event1 (remoteUid event1) s
              in snd (modifyEvent (modify_ok env 0) event1 s1))
         | Some v \<Rightarrow>
             snd (modifyEvent (modify_ok env 0)
               (setExtraProperty ''mms-notification-imsi'' (Some (VString v)) event) s))"

text \<open>The handler as the constructor leaves it, in a world with nothing stored.\<close>

definition MmsHandler :: "string \<Rightarrow> (string \<Rightarrow> bool) \<Rightarrow> (string \<Rightarrow> int) \<Rightarrow> mms_handler" where
  "MmsHandler imsi cb ci =
     onSubscriberIdentityChanged
       \<lparr> m_activeEvents = [], m_sendMessageFlags = None, m_automaticDownload = None,
         cellularStatus = ''home'', roamingAllowed = False, askRoaming = False,
         subscriberIdentity = imsi, conf_toBool = cb, conf_toInt = ci, events = [],
         nextId = 1, files = Map.empty, dbCalls = [], notifications = [],
         engineCalls = [] \<rparr>"

subsection \<open>The specification's own words\<close>

text \<open>
  The table of the specification for \<^verbatim>\<open>receiveStateChanged\<close>, read for a record whose
  current status is \<open>current\<close>: Receiving and Decoding give Downloading, Deferred gives
  Waiting, NoSpace and RecvError give TemporarilyFailed (skipped if the current status is
  already ManualNotification, which then stays), Garbage gives PermanentlyFailed. Any
  other code is not in the table.
\<close>

definition spec_receiveStatus :: "int \<Rightarrow> event_status \<Rightarrow> event_status option" where
  "spec_receiveStatus state current =
     (if state = Receiving \<or> state = Decoding then Some DownloadingStatus
      else if state = Deferred then Some WaitingStatus
      else if state = NoSpace \<or> state = RecvError then
        (if current = ManualNotificationStatus then Some ManualNotificationStatus
         else Some TemporarilyFailedStatus)
      else if state = Garbage then Some PermanentlyFailedStatus
      else None)"








subsection \<open>A concrete environment and concrete worlds\<close>

text \<open>
  An environment in which every outside operation succeeds, one in which the store
  refuses the write behind \<open>modify_ok 0\<close>, and a few worlds: one whose subscriber has automatic
  download switched on (with one text file waiting under \<^verbatim>\<open>/tmp/mms\<close>), one with it
  switched off, one without a subscriber identity, and the worlds that handler calls make
  of them. They are the concrete inputs at which the theorems below are instantiated.
\<close>

definition env_ok :: env where
  "env_ok = \<lparr> now = 1400000000, RING_ACCOUNT_PATH = ''/ring/tel/account0'',
     toBase64 = (\<lambda>d. d),
     QString_toInt = (\<lambda>t. if t = ''1'' then 1 else if t = ''2'' then 2 else 0),
     resolveGroup = (\<lambda>e. Some 7), normalizePhoneNumber = (\<lambda>n. n),
     messagePartPath = (\<lambda>k cid. ''/parts/'' @ QString_number k @ ''/'' @ cid),
     link_permitted = (\<lambda>src dst. True), copy_permitted = (\<lambda>src dst. True),
     query_ok = (\<lambda>n. True), add_ok = True, modify_ok = (\<lambda>n. True), move_ok = True \<rparr>"


definition part_text :: mms_part where
  "part_text = \<lparr>fileName = ''/tmp/mms/part1'', contentType = ''text/plain; charset=utf-8'',
     contentId = ''text1''\<rparr>"


definition world_auto :: mms_handler where
  "world_auto = (MmsHandler ''244123'' (\<lambda>k. True) (\<lambda>k. 0))
     \<lparr>files := [''/tmp/mms/part1'' \<mapsto> ''  Hello  '']\<rparr>"

definition world_manual :: mms_handler where
  "world_manual = MmsHandler ''244123'' (\<lambda>k. False) (\<lambda>k. 0)"

definition world_noimsi :: mms_handler where
  "world_noimsi = MmsHandler [] (\<lambda>k. True) (\<lambda>k. 0)"

text \<open>After a push notification under manual download: row 1 is held for the user.\<close>

definition world_held :: mms_handler where
  "world_held =
     fst (messageNotification env_ok ''244123'' ''+3581'' ''hello'' 100 ''push'' world_manual)"



text \<open>After \<^verbatim>\<open>sendMessage\<close> of one text part to one recipient: row 1 is being sent.\<close>

definition world_sending :: mms_handler where
  "world_sending =
     (case sendMessage env_ok [''+3581''] [] [] ''hi'' [part_text] world_auto of
        Some (w, r) \<Rightarrow> w
      | None \<Rightarrow> world_auto)"


text \<open>After the engine has reported row 1 sent under the token \<^verbatim>\<open>mms-1\<close>.\<close>

definition world_sent :: mms_handler where
  "world_sent = messageSent env_ok ''1'' ''mms-1'' world_sending"



section \<open>Properties\<close>

subsection \<open>Facts about the store, the strings and the logs\<close>

lemma digits10_nonempty: "digits10 n \<noteq> []"
  by (subst digits10.simps) simp

lemma QString_number_nonempty: "QString_number i \<noteq> []"
  by (simp add: QString_number_def digits10_nonempty)

lemma find_id: "find (\<lambda>r. id_ev r = k) xs = Some r \<Longrightarrow> id_ev r = k \<and> r \<in> set xs"
  by (induction xs) (auto split: if_splits)



lemma getEventById_valid:
  assumes "isValid (snd (getEventById ok k s))"
  shows "ok \<and> id_ev (snd (getEventById ok k s)) = k
         \<and> snd (getEventById ok k s) \<in> set (events s)"
  using assms
  by (auto simp: getEventById_def isValid_def Event_def dest: find_id
      split: if_splits option.splits)



lemma modifyEvent_fields:
  "files (snd (modifyEvent ok e s)) = files s"
  "dbCalls (snd (modifyEvent ok e s)) = dbCalls s @ [ModifyEvent e]"
  "m_activeEvents (snd (modifyEvent ok e s)) = m_activeEvents s"
  "notifications (snd (modifyEvent ok e s)) = notifications s"
  "engineCalls (snd (modifyEvent ok e s)) = engineCalls s"
  "id_ev ` set (events (snd (modifyEvent ok e s))) = id_ev ` set (events s)"
  "fst (modifyEvent ok e s) = (ok \<and> isValid e \<and> id_ev e \<in> id_ev ` set (events s))"
  by (auto simp: modifyEvent_def Let_def)

lemma modifyEvent_frame:
  "snd (modifyEvent ok e s)
   = s\<lparr>events := events (snd (modifyEvent ok e s)), dbCalls := dbCalls s @ [ModifyEvent e]\<rparr>"
  by (simp add: modifyEvent_def Let_def)

lemma modifyEvent_rows:
  "set (events (snd (modifyEvent ok e s))) \<subseteq> insert e (set (events s))"
  "length (events (snd (modifyEvent ok e s))) = length (events s)"
  by (auto simp: modifyEvent_def Let_def)






text \<open>
  With a first recipient and more than one recipient in all, \<^verbatim>\<open>sendMessage\<close> gives up
  before it touches anything.
\<close>

lemma sendMessage_group_rejected:
  "to \<noteq> [] \<Longrightarrow> length to + length cc + length bcc > 1 \<Longrightarrow>
   sendMessage env to cc bcc subj parts s = Some (s, - 1)"
  by (cases to) (simp_all add: sendMessage_def Let_def)

text \<open>A retry of a row that is being sent enters its id into the list once more.\<close>

lemma sendMessageFromEventId_appends:
  assumes "isValid (snd (getEventById (query_ok env 0) k s))"
    and "type_ev (snd (getEventById (query_ok env 0) k s)) = MMSEvent"
    and "direction (snd (getEventById (query_ok env 0) k s)) = Outbound"
    and "toList (snd (getEventById (query_ok env 0) k s)) \<noteq> []"
    and "messageParts (snd (getEventById (query_ok env 0) k s)) \<noteq> []"
  shows "m_activeEvents (sendMessageFromEventId env k s) = m_activeEvents s @ [k]"
proof -
  have "id_ev (snd (getEventById (query_ok env 0) k s)) = k"
    using getEventById_valid [OF assms(1)] by auto
  with assms show ?thesis
    by (cases "toList (snd (getEventById (query_ok env 0) k s))";
        cases "messageParts (snd (getEventById (query_ok env 0) k s))")
      (simp_all add: sendMessageFromEventId_def sendMessageFromEvent_def Let_def
        modifyEvent_fields)
qed

subsection \<open>The active list and the terminal statuses\<close>

text \<open>
  Claim C1. After any sequence of handler calls every id in the active list belongs to a
  record whose last-set status is Waiting, Downloading or Sending; the list is pruned
  whenever a handler sets a terminal status. \<^verbatim>\<open>messageReceiveStateChanged\<close> and
  \<^verbatim>\<open>messageSendStateChanged\<close> do prune, but \<^verbatim>\<open>sendMessageFinished\<close> does not: after
  \<^verbatim>\<open>sendMessage\<close> to one recipient, row 1 is being sent and active; when the engine call
  then fails, row 1 is stored as \<^verbatim>\<open>TemporarilyFailedStatus\<close> and is still in the list.
\<close>

theorem C1_sendMessageFinished_keeps_failed_id:
  "m_activeEvents world_sending = [1]
   \<and> status (snd (getEventById True 1 world_sending)) = SendingStatus
   \<and> m_activeEvents (sendMessageFinished env_ok (Some 1) None world_sending) = [1]
   \<and> status (snd (getEventById True 1 (sendMessageFinished env_ok (Some 1) None world_sending)))
       = TemporarilyFailedStatus"
  by code_simp

subsection \<open>No subscriber identity\<close>

text \<open>
  Claim C2, as amended. When the subscriber identity is empty the automatic-download item
  is unset; and for every call of \<^verbatim>\<open>messageNotification\<close> that stores its record while
  the item is unset and data is not prohibited, the record is created as \<^verbatim>\<open>Waiting\<close>,
  the returned token is the row id in decimal (never empty) and the row id is appended to
  the active list: an unset item means automatic download, not manual download.
\<close>

theorem C2_unset_means_automatic:
  "(subscriberIdentity s0 = [] \<longrightarrow> m_automaticDownload (onSubscriberIdentityChanged s0) = None)
   \<and> (m_automaticDownload s = None \<and> \<not> isDataProhibited s
        \<and> messageNotification env imsi sender subj expiry data s = (s1, token)
        \<and> events s1 \<noteq> events s \<longrightarrow>
        token = QString_number (nextId s) \<and> token \<noteq> []
        \<and> (\<exists>e. events s1 = events s @ [e] \<and> id_ev e = nextId s \<and> status e = WaitingStatus)
        \<and> m_activeEvents s1 = m_activeEvents s @ [nextId s])"
  by (auto simp: onSubscriberIdentityChanged_def messageNotification_def Let_def
      setGroupForEvent_def addEvent_def showNotification_def QString_number_nonempty
      split: option.splits if_splits prod.splits bool.splits)

text \<open>
  The amended claim at a concrete input: the handler built without a subscriber identity
  receives a push notification.
\<close>

theorem C2_unset_means_automatic_witness:
  "subscriberIdentity world_noimsi = []
   \<and> m_automaticDownload (onSubscriberIdentityChanged world_noimsi) = None
   \<and> m_automaticDownload world_noimsi = None
   \<and> \<not> isDataProhibited world_noimsi
   \<and> snd (messageNotification env_ok ''244123'' ''+3581'' ''hello'' 100 ''push'' world_noimsi)
       = QString_number (nextId world_noimsi)
   \<and> m_activeEvents
        (fst (messageNotification env_ok ''244123'' ''+3581'' ''hello'' 100 ''push'' world_noimsi))
       = m_activeEvents world_noimsi @ [nextId world_noimsi]"
proof -
  let ?X = "messageNotification env_ok ''244123'' ''+3581'' ''hello'' 100 ''push'' world_noimsi"
  have a: "subscriberIdentity world_noimsi = []" by code_simp
  have b: "m_automaticDownload world_noimsi = None" by code_simp
  have c: "\<not> isDataProhibited world_noimsi" by code_simp
  have d: "?X = (fst ?X, snd ?X)" by simp
  have "length (events (fst ?X)) = 1" "length (events world_noimsi) = 0" by code_simp+
  then have e: "events (fst ?X) \<noteq> events world_noimsi" by auto
  from a b c d e
    C2_unset_means_automatic [of world_noimsi world_noimsi env_ok "''244123''" "''+3581''"
      "''hello''" 100 "''push''" "fst ?X" "snd ?X"]
  show ?thesis by simp
qed

text \<open>
  The claim as it was stated fails there: the token is \<^verbatim>\<open>1\<close>, not empty, and the record
  is \<^verbatim>\<open>Waiting\<close>, not \<^verbatim>\<open>ManualNotification\<close>.
\<close>

theorem C2_counterexample:
  "subscriberIdentity world_noimsi = [] \<and> m_automaticDownload world_noimsi = None
   \<and> \<not> isDataProhibited world_noimsi
   \<and> snd (messageNotification env_ok ''244123'' ''+3581'' ''hello'' 100 ''push'' world_noimsi)
       = ''1''
   \<and> map status (events
        (fst (messageNotification env_ok ''244123'' ''+3581'' ''hello'' 100 ''push''
           world_noimsi))) = [WaitingStatus]"
  by code_simp

subsection \<open>The receive state table\<close>




text \<open>A state code outside the table changes nothing on an existing record.\<close>

lemma messageReceiveStateChanged_other_state:
  assumes "isValid (snd (getEventById (query_ok env 0) (QString_toInt env recId) s))"
    and "spec_receiveStatus state current = None"
  shows "messageReceiveStateChanged env recId state s = s"
  using assms
  by (auto simp: messageReceiveStateChanged_def receiveStateSwitch_def spec_receiveStatus_def
      Let_def split: if_splits)

subsection \<open>The copy protocol\<close>


















text \<open>
  Where the handlers enter their second halves, the event is in the store: a fresh one
  has just been added, an existing one has just been read.
\<close>

lemma addEvent_stored:
  "fst (addEvent True e s)"
  "id_ev (fst (snd (addEvent True e s))) = nextId s"
  "id_ev (fst (snd (addEvent True e s))) \<in> id_ev ` set (events (snd (snd (addEvent True e s))))"
  "status (fst (snd (addEvent True e s))) = status e"
  "files (snd (snd (addEvent True e s))) = files s"
  by (simp_all add: addEvent_def Let_def)

lemma sendMessage_single_recipient:
  fixes env t subj g
  defines "e \<equiv> Event\<lparr>type_ev := MMSEvent, startTime := Some (now env),
                endTime := Some (now env), direction := Outbound,
                localUid := RING_ACCOUNT_PATH env, subject := subj, status := SendingStatus,
                isRead := True, remoteUid := normalizePhoneNumber env t,
                toList := [normalizePhoneNumber env t], ccList := [], bccList := []\<rparr>"
  assumes "resolveGroup env e = Some g" and "add_ok env"
  shows "sendMessage env [t] [] [] subj parts s
         = Some (sendMessage_parts env parts
             (fst (snd (addEvent True (e\<lparr>groupId := g\<rparr>) s)))
             (snd (snd (addEvent True (e\<lparr>groupId := g\<rparr>) s))))"
  using assms(2,3) unfolding e_def
  by (simp add: sendMessage_def Let_def setGroupForEvent_def case_prod_beta addEvent_stored)

lemma messageReceived_existing:
  fixes env recId s sender
  defines "ev \<equiv> snd (getEventById (query_ok env 0) (QString_toInt env recId) s)"
  assumes "0 \<le> id_ev ev" "remoteUid ev = sender"
  shows "messageReceived env recId mmsId0 sender to cc subj date priority cls rr parts s
         = messageReceived_parts env sender parts
             (setExtraProperty ''mms-push-data'' None
               (setExtraProperty ''mms-expiry'' None
                 (setExtraProperty ''mms-notification-imsi'' None
                   (ev\<lparr>subject := subj, startTime := Some (int date), mmsId := mmsId0,
                      toList := to, ccList := cc, reportRead := rr,
                      status := ReceivedStatus\<rparr>))))
             (s\<lparr>m_activeEvents := remove1 (QString_toInt env recId) (m_activeEvents s)\<rparr>)"
    and "ev \<in> set (events s)"
proof -
  have v: "isValid ev" using assms(2) by (simp add: isValid_def)
  from getEventById_valid [OF v [unfolded ev_def]]
  show "ev \<in> set (events s)" by (auto simp: ev_def)
  show "messageReceived env recId mmsId0 sender to cc subj date priority cls rr parts s
         = messageReceived_parts env sender parts
             (setExtraProperty ''mms-push-data'' None
               (setExtraProperty ''mms-expiry'' None
                 (setExtraProperty ''mms-notification-imsi'' None
                   (ev\<lparr>subject := subj, startTime := Some (int date), mmsId := mmsId0,
                      toList := to, ccList := cc, reportRead := rr,
                      status := ReceivedStatus\<rparr>))))
             (s\<lparr>m_activeEvents := remove1 (QString_toInt env recId) (m_activeEvents s)\<rparr>)"
    using assms(2,3) v
    unfolding messageReceived_def ev_def [symmetric]
    by (simp add: Let_def messageReceived_regroup_def setExtraProperty_def)
qed




subsection \<open>The token of a push notification\<close>



subsection \<open>Group messages\<close>

text \<open>
  Claim C6. For every \<^verbatim>\<open>sendMessage\<close> call with more than one recipient in all of to, cc
  and bcc the call returns -1 and the store is untouched. With a first \<open>to\<close> entry that
  is so (lemma \<open>sendMessage_group_rejected\<close>), but with an empty \<open>to\<close> and two \<open>cc\<close>
  recipients the source indexes \<^verbatim>\<open>to[0]\<close> out of range before it counts, and the call
  has no result.
\<close>

theorem C6_group_without_to_has_no_result:
  "length ([] :: string list) + length [''+3581'', ''+3582''] + length ([] :: string list) > 1
   \<and> sendMessage env_ok [] [''+3581'', ''+3582''] [] ''hi'' [part_text] world_auto = None"
  by (simp add: sendMessage_def)

subsection \<open>Cancelling under roaming restrictions\<close>




subsection \<open>Receive failures leave a held notification alone\<close>

text \<open>
  Claim C8. For every record whose current status is \<^verbatim>\<open>ManualNotification\<close>, a call of
  \<^verbatim>\<open>messageReceiveStateChanged\<close> with state \<^verbatim>\<open>NoSpace\<close> or \<^verbatim>\<open>RecvError\<close> changes nothing
  at all: the status stays, nothing is written to the store, no notification is raised
  (the whole state, logs included, is the one before the call).
\<close>

theorem C8_manual_notification_kept:
  assumes "isValid (snd (getEventById (query_ok env 0) (QString_toInt env recId) s))"
    and "status (snd (getEventById (query_ok env 0) (QString_toInt env recId) s))
           = ManualNotificationStatus"
    and "state = NoSpace \<or> state = RecvError"
  shows "messageReceiveStateChanged env recId state s = s"
  using assms by (auto simp: messageReceiveStateChanged_def receiveStateSwitch_def)

theorem C8_manual_notification_kept_witness:
  "isValid (snd (getEventById (query_ok env_ok 0) (QString_toInt env_ok ''1'') world_held))
   \<and> status (snd (getEventById (query_ok env_ok 0) (QString_toInt env_ok ''1'') world_held))
       = ManualNotificationStatus
   \<and> messageReceiveStateChanged env_ok ''1'' NoSpace world_held = world_held"
proof -
  have a: "isValid (snd (getEventById (query_ok env_ok 0) (QString_toInt env_ok ''1'')
             world_held))"
    by code_simp
  have b: "status (snd (getEventById (query_ok env_ok 0) (QString_toInt env_ok ''1'')
             world_held)) = ManualNotificationStatus"
    by code_simp
  from a b C8_manual_notification_kept [of env_ok "''1''" world_held NoSpace]
  show ?thesis by simp
qed

subsection \<open>Delivery and read reports\<close>

text \<open>
  Claim C9. For every correlation token, recipient and status code, \<^verbatim>\<open>deliveryReport\<close>
  and \<^verbatim>\<open>readReport\<close> leave the active list and the notifications as they are. When the
  token is unknown they do nothing at all. Otherwise each makes one \<^verbatim>\<open>modifyEvent\<close> call,
  of the record found with at most its status (\<^verbatim>\<open>deliveryReport\<close>) or its read status
  (\<^verbatim>\<open>readReport\<close>) changed, and nothing but the rows of the store and the log of store
  calls differs afterwards.
\<close>

theorem C9_reports_are_silent:
  fixes env imsi m r st s
  defines "e \<equiv> snd (getEventByTokens (query_ok env 0) m s)"
  defines "d \<equiv> deliveryReport env imsi m r st s"
  defines "rr \<equiv> readReport env imsi m r st s"
  shows "m_activeEvents d = m_activeEvents s \<and> notifications d = notifications s
     \<and> m_activeEvents rr = m_activeEvents s \<and> notifications rr = notifications s
     \<and> (\<not> isValid e \<longrightarrow> d = s \<and> rr = s)
     \<and> (isValid e \<longrightarrow>
          (\<exists>e1. e1 = e\<lparr>status := status e1\<rparr>
             \<and> d = s\<lparr>events := events d, dbCalls := dbCalls s @ [ModifyEvent e1]\<rparr>
             \<and> set (events d) \<subseteq> insert e1 (set (events s))
             \<and> length (events d) = length (events s))
        \<and> (\<exists>e2. e2 = e\<lparr>readStatus := readStatus e2\<rparr>
             \<and> rr = s\<lparr>events := events rr, dbCalls := dbCalls s @ [ModifyEvent e2]\<rparr>
             \<and> set (events rr) \<subseteq> insert e2 (set (events s))
             \<and> length (events rr) = length (events s)))"
proof -
  have fr: "m_activeEvents d = m_activeEvents s \<and> notifications d = notifications s
     \<and> m_activeEvents rr = m_activeEvents s \<and> notifications rr = notifications s"
    unfolding d_def rr_def deliveryReport_def readReport_def
    by (simp add: Let_def modifyEvent_def)
  have unk: "\<not> isValid e \<longrightarrow> d = s \<and> rr = s"
    unfolding d_def rr_def e_def deliveryReport_def readReport_def by (simp add: Let_def)
  have dl: "\<exists>e1. e1 = e\<lparr>status := status e1\<rparr>
             \<and> d = s\<lparr>events := events d, dbCalls := dbCalls s @ [ModifyEvent e1]\<rparr>
             \<and> set (events d) \<subseteq> insert e1 (set (events s))
             \<and> length (events d) = length (events s)"
    if v: "isValid e"
  proof -
    let ?e1 = "deliveryStatusSwitch st e"
    have d: "d = snd (modifyEvent (modify_ok env 0) ?e1 s)"
      using v unfolding d_def e_def deliveryReport_def by (simp add: Let_def)
    have "?e1 = e\<lparr>status := status ?e1\<rparr>" by (simp add: deliveryStatusSwitch_def)
    moreover have "d = s\<lparr>events := events d, dbCalls := dbCalls s @ [ModifyEvent ?e1]\<rparr>"
      unfolding d by (rule modifyEvent_frame)
    moreover have "set (events d) \<subseteq> insert ?e1 (set (events s))"
      "length (events d) = length (events s)"
      unfolding d by (rule modifyEvent_rows)+
    ultimately show ?thesis by blast
  qed
  have rd: "\<exists>e2. e2 = e\<lparr>readStatus := readStatus e2\<rparr>
             \<and> rr = s\<lparr>events := events rr, dbCalls := dbCalls s @ [ModifyEvent e2]\<rparr>
             \<and> set (events rr) \<subseteq> insert e2 (set (events s))
             \<and> length (events rr) = length (events s)"
    if v: "isValid e"
  proof -
    let ?e2 = "if st = 0 then e\<lparr>readStatus := ReadStatusRead\<rparr>
               else e\<lparr>readStatus := ReadStatusDeleted\<rparr>"
    have d: "rr = snd (modifyEvent (modify_ok env 0) ?e2 s)"
      using v unfolding rr_def e_def readReport_def by (simp add: Let_def)
    have "?e2 = e\<lparr>readStatus := readStatus ?e2\<rparr>" by simp
    moreover have "rr = s\<lparr>events := events rr, dbCalls := dbCalls s @ [ModifyEvent ?e2]\<rparr>"
      unfolding d by (rule modifyEvent_frame)
    moreover have "set (events rr) \<subseteq> insert ?e2 (set (events s))"
      "length (events rr) = length (events s)"
      unfolding d by (rule modifyEvent_rows)+
    ultimately show ?thesis by blast
  qed
  from fr unk dl rd show ?thesis by blast
qed

text \<open>
  At concrete inputs: row 1 was sent under the token \<^verbatim>\<open>mms-1\<close> and is found by it; the
  token \<^verbatim>\<open>mms-9\<close> is unknown.
\<close>

theorem C9_reports_are_silent_witness:
  "isValid (snd (getEventByTokens (query_ok env_ok 0) ''mms-1'' world_sent))
   \<and> m_activeEvents (deliveryReport env_ok [] ''mms-1'' ''+3581'' Delivery_Retrieved world_sent)
       = m_activeEvents world_sent
   \<and> notifications (readReport env_ok [] ''mms-1'' ''+3581'' 0 world_sent)
       = notifications world_sent
   \<and> length (events (deliveryReport env_ok [] ''mms-1'' ''+3581'' Delivery_Retrieved world_sent))
       = length (events world_sent)
   \<and> \<not> isValid (snd (getEventByTokens (query_ok env_ok 0) ''mms-9'' world_sent))
   \<and> deliveryReport env_ok [] ''mms-9'' ''+3581'' Delivery_Retrieved world_sent = world_sent
   \<and> readReport env_ok [] ''mms-9'' ''+3581'' 0 world_sent = world_sent"
proof -
  have known: "isValid (snd (getEventByTokens (query_ok env_ok 0) ''mms-1'' world_sent))"
    and unknown: "\<not> isValid (snd (getEventByTokens (query_ok env_ok 0) ''mms-9'' world_sent))"
    by code_simp+
  note A = C9_reports_are_silent [of env_ok "[]" "''mms-1''" "''+3581''" Delivery_Retrieved
      world_sent]
  note B = C9_reports_are_silent [of env_ok "[]" "''mms-1''" "''+3581''" 0 world_sent]
  note C = C9_reports_are_silent [of env_ok "[]" "''mms-9''" "''+3581''" Delivery_Retrieved
      world_sent]
  note D = C9_reports_are_silent [of env_ok "[]" "''mms-9''" "''+3581''" 0 world_sent]
  from A known
  have "m_activeEvents (deliveryReport env_ok [] ''mms-1'' ''+3581'' Delivery_Retrieved
          world_sent) = m_activeEvents world_sent"
    and "length (events (deliveryReport env_ok [] ''mms-1'' ''+3581'' Delivery_Retrieved
          world_sent)) = length (events world_sent)"
    by auto
  moreover from B
  have "notifications (readReport env_ok [] ''mms-1'' ''+3581'' 0 world_sent)
          = notifications world_sent"
    by simp
  moreover from C unknown
  have "deliveryReport env_ok [] ''mms-9'' ''+3581'' Delivery_Retrieved world_sent = world_sent"
    by simp
  moreover from D unknown
  have "readReport env_ok [] ''mms-9'' ''+3581'' 0 world_sent = world_sent"
    by simp
  ultimately show ?thesis using known unknown by simp
qed

subsection \<open>sendMessage and the first recipient\<close>

text \<open>
  Claim C10. \<^verbatim>\<open>sendMessage\<close> reads \<^verbatim>\<open>to[0]\<close> before any check of the recipient lists:
  it has no result exactly when \<open>to\<close> is empty, whatever \<open>cc\<close> and \<open>bcc\<close> hold, so the
  rejection of more than one recipient is never reached on such a call.
\<close>

theorem C10_sendMessage_needs_first_recipient:
  "(sendMessage env to cc bcc subj parts s = None) = (to = [])"
  by (cases to) (simp_all add: sendMessage_def Let_def split: prod.splits bool.splits)

end
